theory Spec2Isabelle
  imports Complex_Main "HOL-Library.Word"
begin

section \<open>Palette stops and colour look-up tables\<close>

text \<open>
  The generator works on Python floats. Stop positions, the brightness multiplier and
  the animation phase are modelled as real numbers with exact arithmetic; colour
  channels are Python integers. Results that depend on binary64 rounding are not
  stated over this model.
\<close>

type_synonym color = "int \<times> int \<times> int"

record PaletteStop =
  at_pos :: real
  color :: color

datatype error = ValueError string | ZeroDivisionError

definition clamp :: "real \<Rightarrow> real \<Rightarrow> real \<Rightarrow> real" where
  "clamp v low high = max low (min high v)"

definition lerp :: "real \<Rightarrow> real \<Rightarrow> real \<Rightarrow> real" where
  "lerp a b t = a + (b - a) * t"

text \<open>Python's \<open>round\<close> on a float: nearest integer, ties to the even one.\<close>

definition py_round :: "real \<Rightarrow> int" where
  "py_round v =
     (let f = \<lfloor>v\<rfloor>; d = v - of_int f
      in if d < 1 / 2 then f
         else if 1 / 2 < d then f + 1
         else if even f then f else f + 1)"

text \<open>Python's \<open>int\<close> on a float: truncation towards zero.\<close>

definition py_int :: "real \<Rightarrow> int" where
  "py_int v = (if 0 \<le> v then \<lfloor>v\<rfloor> else \<lceil>v\<rceil>)"

definition lerp_color :: "color \<Rightarrow> color \<Rightarrow> real \<Rightarrow> color" where
  "lerp_color a b t =
     (case a of (a0, a1, a2) \<Rightarrow> case b of (b0, b1, b2) \<Rightarrow>
        (py_round (lerp (of_int a0) (of_int b0) t),
         py_round (lerp (of_int a1) (of_int b1) t),
         py_round (lerp (of_int a2) (of_int b2) t)))"

text \<open>
  Lines 36 to 39: boundary stops are inserted into the sorted copy. Only called on a
  non-empty list (the empty case has raised before).
\<close>

definition pad_front :: "PaletteStop list \<Rightarrow> PaletteStop list" where
  "pad_front ss =
     (if 0 < at_pos (hd ss) then \<lparr>at_pos = 0, color = color (hd ss)\<rparr> # ss else ss)"

definition pad_back :: "PaletteStop list \<Rightarrow> PaletteStop list" where
  "pad_back ss =
     (if at_pos (last ss) < 1 then ss @ [\<lparr>at_pos = 1, color = color (last ss)\<rparr>] else ss)"

text \<open>
  Lines 49 to 53: the scan over consecutive pairs, stopping at the first pair that
  brackets \<open>x\<close>; \<open>None\<close> when the loop ends without a \<open>break\<close>.
\<close>

fun find_bracket :: "PaletteStop list \<Rightarrow> real \<Rightarrow> (PaletteStop \<times> PaletteStop) option" where
  "find_bracket (a # b # rest) x =
     (if at_pos a \<le> x \<and> x \<le> at_pos b then Some (a, b) else find_bracket (b # rest) x)"
| "find_bracket [a] x = None"
| "find_bracket [] x = None"

definition bracket :: "PaletteStop list \<Rightarrow> real \<Rightarrow> PaletteStop \<times> PaletteStop" where
  "bracket ss x = (case find_bracket ss x of Some p \<Rightarrow> p | None \<Rightarrow> (hd ss, last ss))"

definition stop_span :: "PaletteStop \<Rightarrow> PaletteStop \<Rightarrow> real" where
  "stop_span lo hi = max (1 / 1000000) (at_pos hi - at_pos lo)"

definition channel :: "int \<Rightarrow> real \<Rightarrow> int" where
  "channel c brightness = py_int (clamp (of_int c * brightness) 0 255)"

text \<open>Float division raises on a zero divisor.\<close>

definition py_truediv :: "real \<Rightarrow> real \<Rightarrow> error + real" where
  "py_truediv a b = (if b = 0 then Inl ZeroDivisionError else Inr (a / b))"

text \<open>
  One iteration of the loop of line 45: the three table entries for sample \<open>i\<close>,
  or the exception raised on the way.
\<close>

definition lut_entry :: "PaletteStop list \<Rightarrow> real \<Rightarrow> nat \<Rightarrow> error + int \<times> int \<times> int" where
  "lut_entry ss brightness i =
     (let x = real i / 255;
          (lo, hi) = bracket ss x
      in case py_truediv (x - at_pos lo) (stop_span lo hi) of
           Inl e \<Rightarrow> Inl e
         | Inr q \<Rightarrow>
             let t = clamp q 0 1;
                 (r, g, b) = lerp_color (color lo) (color hi) t
             in Inr (channel r brightness, channel g brightness, channel b brightness))"

type_synonym luts = "int list \<times> int list \<times> int list"

text \<open>The loop itself: each round appends one entry to each of the three tables.\<close>

fun lut_loop :: "PaletteStop list \<Rightarrow> real \<Rightarrow> nat list \<Rightarrow> luts \<Rightarrow> error + luts" where
  "lut_loop ss brightness [] acc = Inr acc"
| "lut_loop ss brightness (i # rest) (lut_r, lut_g, lut_b) =
     (case lut_entry ss brightness i of
        Inl e \<Rightarrow> Inl e
      | Inr (r, g, b) \<Rightarrow> lut_loop ss brightness rest (lut_r @ [r], lut_g @ [g], lut_b @ [b]))"

definition build_luts :: "PaletteStop list \<Rightarrow> real \<Rightarrow> error + luts" where
  "build_luts stops brightness =
     (let stops_sorted = sort_key at_pos stops
      in if stops_sorted = [] then Inl (ValueError ''Palette stops cannot be empty'')
         else lut_loop (pad_back (pad_front stops_sorted)) brightness [0..<256] ([], [], []))"

text \<open>The entry the loop computes for sample \<open>i\<close> once the division has succeeded.\<close>

definition lut_value :: "PaletteStop list \<Rightarrow> real \<Rightarrow> nat \<Rightarrow> int \<times> int \<times> int" where
  "lut_value ss brightness i =
     (let x = real i / 255;
          (lo, hi) = bracket ss x;
          t = clamp ((x - at_pos lo) / stop_span lo hi) 0 1;
          (r, g, b) = lerp_color (color lo) (color hi) t
      in (channel r brightness, channel g brightness, channel b brightness))"

text \<open>The stop list the loop runs over: the sorted copy with its boundary stops.\<close>

definition padded :: "PaletteStop list \<Rightarrow> PaletteStop list" where
  "padded stops = pad_back (pad_front (sort_key at_pos stops))"

subsection \<open>The same function over an object store\<close>

text \<open>
  Python passes the stop list by reference. The store holds the list objects, addressed
  by their index; \<open>sorted\<close> allocates a new list object, and \<open>insert\<close> and \<open>append\<close>
  update the object they are called on. Stops are frozen dataclass values.
\<close>

type_synonym store = "PaletteStop list list"

definition py_sorted :: "nat \<Rightarrow> store \<Rightarrow> nat \<times> store" where
  "py_sorted a h = (length h, h @ [sort_key at_pos (h ! a)])"

definition list_insert0 :: "nat \<Rightarrow> PaletteStop \<Rightarrow> store \<Rightarrow> store" where
  "list_insert0 a s h = h[a := s # h ! a]"

definition list_append :: "nat \<Rightarrow> PaletteStop \<Rightarrow> store \<Rightarrow> store" where
  "list_append a s h = h[a := h ! a @ [s]]"

definition build_luts_store :: "nat \<Rightarrow> real \<Rightarrow> store \<Rightarrow> (error + luts) \<times> store" where
  "build_luts_store stops brightness h =
     (let (stops_sorted, h1) = py_sorted stops h
      in if h1 ! stops_sorted = [] then (Inl (ValueError ''Palette stops cannot be empty''), h1)
         else
           let h2 = (if 0 < at_pos (hd (h1 ! stops_sorted))
                     then list_insert0 stops_sorted
                            \<lparr>at_pos = 0, color = color (hd (h1 ! stops_sorted))\<rparr> h1
                     else h1);
               h3 = (if at_pos (last (h2 ! stops_sorted)) < 1
                     then list_append stops_sorted
                            \<lparr>at_pos = 1, color = color (last (h2 ! stops_sorted))\<rparr> h2
                     else h2)
           in (lut_loop (h3 ! stops_sorted) brightness [0..<256] ([], [], []), h3))"

section \<open>Images as the library calls that build them\<close>








definition outer_stops :: "PaletteStop list" where
  "outer_stops =
     [\<lparr>at_pos = 0.00, color = (255, 255, 246)\<rparr>,
      \<lparr>at_pos = 0.18, color = (255, 242, 170)\<rparr>,
      \<lparr>at_pos = 0.48, color = (255, 176, 50)\<rparr>,
      \<lparr>at_pos = 0.74, color = (255, 106, 18)\<rparr>,
      \<lparr>at_pos = 1.00, color = (235, 40, 6)\<rparr>]"

definition inner_stops :: "PaletteStop list" where
  "inner_stops =
     [\<lparr>at_pos = 0.00, color = (255, 255, 255)\<rparr>,
      \<lparr>at_pos = 0.28, color = (255, 248, 196)\<rparr>,
      \<lparr>at_pos = 0.62, color = (255, 212, 106)\<rparr>,
      \<lparr>at_pos = 1.00, color = (255, 150, 40)\<rparr>]"


section \<open>Quantising a frame for the animated file\<close>

text \<open>
  A raster here is its row-major list of pixels. The adaptive-palette conversion is the
  library's: it is a parameter \<open>quantize\<close>, which returns the index of every pixel and
  the palette table.
\<close>

type_synonym rgba = "8 word \<times> 8 word \<times> 8 word \<times> 8 word"
type_synonym rgb = "8 word \<times> 8 word \<times> 8 word"

record indexed_frame =
  indices :: "8 word list"
  palette :: "rgb list"
  transparency :: "nat option"

definition getchannel_A :: "rgba list \<Rightarrow> 8 word list" where
  "getchannel_A im = map (\<lambda>(r, g, b, a). a) im"

text \<open>\<open>Image.eval\<close>: the function applied to every pixel.\<close>

definition image_eval :: "8 word list \<Rightarrow> (8 word \<Rightarrow> 8 word) \<Rightarrow> 8 word list" where
  "image_eval im f = map f im"

text \<open>
  \<open>paste\<close> of a colour through an 8-bit mask: the library blends
  \<open>(old * (255 - m) + colour * m) / 255\<close>, rounded, so mask 255 writes the colour and
  mask 0 keeps the pixel.
\<close>

definition blend8 :: "8 word \<Rightarrow> 8 word \<Rightarrow> 8 word \<Rightarrow> 8 word" where
  "blend8 m old new =
     (let a = unat old * (255 - unat m) + unat new * unat m; tmp = a + 128
      in of_nat ((tmp div 256 + tmp) div 256))"

definition paste :: "8 word \<Rightarrow> 8 word list \<Rightarrow> 8 word list \<Rightarrow> 8 word list" where
  "paste c msk im = map (\<lambda>(m, p). blend8 m p c) (zip msk im)"

definition rgba_to_gif_frame ::
  "(rgba list \<Rightarrow> int \<Rightarrow> 8 word list \<times> rgb list) \<Rightarrow> rgba list \<Rightarrow> int \<Rightarrow> int \<Rightarrow> indexed_frame" where
  "rgba_to_gif_frame quantize img alpha_threshold colors =
     (let rgba = img;
          alpha = getchannel_A rgba;
          (pal, table) = quantize rgba colors;
          transparent = image_eval alpha (\<lambda>a. if uint a \<le> alpha_threshold then 255 else 0);
          pal = paste 0 transparent pal
      in \<lparr>indices = pal, palette = table, transparency = Some 0\<rparr>)"

section \<open>Properties of the table builder\<close>

lemma channel_range: "0 \<le> channel c b \<and> channel c b \<le> 255"
  unfolding channel_def py_int_def clamp_def
  by (auto simp: le_floor_iff floor_le_iff max_def min_def)

lemma stop_span_pos: "1 / 1000000 \<le> stop_span lo hi"
  by (simp add: stop_span_def)

lemma lut_entry_value: "lut_entry ss br i = Inr (lut_value ss br i)"
proof -
  obtain lo hi where b: "bracket ss (real i / 255) = (lo, hi)"
    by (cases "bracket ss (real i / 255)")
  have "stop_span lo hi \<noteq> 0"
    using stop_span_pos[of lo hi] by auto
  then show ?thesis
    by (simp add: lut_entry_def lut_value_def b py_truediv_def Let_def split: prod.splits)
qed

lemma lut_loop_value:
  "lut_loop ss br is (lr, lg, lb) =
     Inr (lr @ map (fst \<circ> lut_value ss br) is,
          lg @ map (fst \<circ> snd \<circ> lut_value ss br) is,
          lb @ map (snd \<circ> snd \<circ> lut_value ss br) is)"
proof (induction "is" arbitrary: lr lg lb)
  case Nil
  then show ?case by simp
next
  case (Cons i rest)
  obtain r g b where v: "lut_value ss br i = (r, g, b)"
    by (cases "lut_value ss br i")
  show ?case
    by (simp add: lut_entry_value v Cons.IH)
qed

lemma lut_value_range:
  "lut_value ss br i = (r, g, b) \<Longrightarrow>
     0 \<le> r \<and> r \<le> 255 \<and> 0 \<le> g \<and> g \<le> 255 \<and> 0 \<le> b \<and> b \<le> 255"
  by (auto simp: lut_value_def Let_def channel_range split: prod.splits)

lemma sort_key_Nil_iff: "(sort_key f xs = []) = (xs = [])"
  using length_sort[of f xs] by (metis length_0_conv)

lemma build_luts_nonempty:
  "stops \<noteq> [] \<Longrightarrow> build_luts stops br =
     Inr (map (fst \<circ> lut_value (padded stops) br) [0..<256],
          map (fst \<circ> snd \<circ> lut_value (padded stops) br) [0..<256],
          map (snd \<circ> snd \<circ> lut_value (padded stops) br) [0..<256])"
  by (simp add: build_luts_def padded_def Let_def sort_key_Nil_iff lut_loop_value del: upt.simps)

lemma build_luts_empty: "build_luts [] br = Inl (ValueError ''Palette stops cannot be empty'')"
  by (simp add: build_luts_def)

lemma build_luts_shape:
  assumes "stops \<noteq> []"
  shows "\<exists>r g b. build_luts stops br = Inr (r, g, b) \<and> length r = 256 \<and> length g = 256
           \<and> length b = 256 \<and> (\<forall>v \<in> set r \<union> set g \<union> set b. 0 \<le> v \<and> v \<le> 255)"
proof -
  have rng: "0 \<le> fst (lut_value ss br i) \<and> fst (lut_value ss br i) \<le> 255
      \<and> 0 \<le> fst (snd (lut_value ss br i)) \<and> fst (snd (lut_value ss br i)) \<le> 255
      \<and> 0 \<le> snd (snd (lut_value ss br i)) \<and> snd (snd (lut_value ss br i)) \<le> 255" for ss i
    using lut_value_range[of ss br i] by (cases "lut_value ss br i") simp
  show ?thesis
    unfolding build_luts_nonempty[OF assms]
    using rng by (auto simp del: upt.simps)
qed

lemmas lut_eval = lut_value_def bracket_def stop_span_def clamp_def lerp_color_def lerp_def
  py_round_def channel_def py_int_def Let_def

lemma black_white_mid:
  "lut_value [\<lparr>at_pos = 0, color = (0, 0, 0)\<rparr>, \<lparr>at_pos = 1, color = (255, 255, 255)\<rparr>] 1 127
     = (127, 127, 127)"
  "lut_value [\<lparr>at_pos = 0, color = (0, 0, 0)\<rparr>, \<lparr>at_pos = 1, color = (255, 255, 255)\<rparr>] 1 128
     = (128, 128, 128)"
  by (simp_all add: lut_eval)

text \<open>
  C4. For every non-empty stop list and every brightness, \<open>build_luts\<close> returns three
  tables of exactly 256 entries, each entry an integer between 0 and 255. For the
  two-stop palette black at 0, white at 1 and brightness 1, entry 127 is 127 and
  entry 128 is 128 on all three channels, the two nearest integers to mid-gray 127.5.
\<close>

theorem build_luts_tables_and_midgray:
  "(stops \<noteq> [] \<longrightarrow>
      (\<exists>r g b. build_luts stops brightness = Inr (r, g, b)
         \<and> length r = 256 \<and> length g = 256 \<and> length b = 256
         \<and> (\<forall>v \<in> set r \<union> set g \<union> set b. 0 \<le> v \<and> v \<le> 255)))
   \<and> (\<exists>r g b. build_luts [\<lparr>at_pos = 0, color = (0, 0, 0)\<rparr>,
                            \<lparr>at_pos = 1, color = (255, 255, 255)\<rparr>] 1 = Inr (r, g, b)
         \<and> r ! 127 = 127 \<and> g ! 127 = 127 \<and> b ! 127 = 127
         \<and> r ! 128 = 128 \<and> g ! 128 = 128 \<and> b ! 128 = 128)"
proof (intro conjI impI)
  assume "stops \<noteq> []"
  then show "\<exists>r g b. build_luts stops brightness = Inr (r, g, b)
         \<and> length r = 256 \<and> length g = 256 \<and> length b = 256
         \<and> (\<forall>v \<in> set r \<union> set g \<union> set b. 0 \<le> v \<and> v \<le> 255)"
    by (rule build_luts_shape)
next
  let ?bw = "[\<lparr>at_pos = 0, color = (0, 0, 0)\<rparr>, \<lparr>at_pos = 1, color = (255, 255, 255)\<rparr>]"
  have ne: "?bw \<noteq> []" by simp
  have pd: "padded ?bw = ?bw"
    by (simp add: padded_def pad_front_def pad_back_def)
  show "\<exists>r g b. build_luts ?bw 1 = Inr (r, g, b)
         \<and> r ! 127 = 127 \<and> g ! 127 = 127 \<and> b ! 127 = 127
         \<and> r ! 128 = 128 \<and> g ! 128 = 128 \<and> b ! 128 = 128"
    unfolding build_luts_nonempty[OF ne] pd
    by (simp add: black_white_mid del: upt.simps)
qed

theorem build_luts_tables_and_midgray_witness:
  "inner_stops \<noteq> [] \<and>
   (\<exists>r g b. build_luts inner_stops (103 / 100) = Inr (r, g, b)
      \<and> length r = 256 \<and> length g = 256 \<and> length b = 256
      \<and> (\<forall>v \<in> set r \<union> set g \<union> set b. 0 \<le> v \<and> v \<le> 255))"
proof -
  have ne: "inner_stops \<noteq> []"
    by (simp add: inner_stops_def)
  show ?thesis
    using ne build_luts_tables_and_midgray[of inner_stops "103 / 100"] by blast
qed

lemma padded_inside:
  assumes ne: "stops \<noteq> []" and ins: "\<forall>s \<in> set stops. 0 < at_pos s \<and> at_pos s < 1"
  shows "padded stops =
     \<lparr>at_pos = 0, color = color (hd (sort_key at_pos stops))\<rparr> # sort_key at_pos stops
       @ [\<lparr>at_pos = 1, color = color (last (sort_key at_pos stops))\<rparr>]"
proof -
  let ?ss = "sort_key at_pos stops"
  have sne: "?ss \<noteq> []" using ne by (simp add: sort_key_Nil_iff)
  have "hd ?ss \<in> set stops" "last ?ss \<in> set stops"
    using sne hd_in_set[of ?ss] last_in_set[of ?ss] by simp_all
  then have "0 < at_pos (hd ?ss)" "at_pos (last ?ss) < 1" using ins by auto
  then show ?thesis using sne
    by (simp add: padded_def pad_front_def pad_back_def)
qed

lemma padded_explicit:
  assumes srt: "sorted (map at_pos ss)" and ins: "\<forall>s \<in> set ss. 0 < at_pos s \<and> at_pos s < 1"
  shows "padded (\<lparr>at_pos = 0, color = c\<rparr> # ss @ [\<lparr>at_pos = 1, color = d\<rparr>])
       = \<lparr>at_pos = 0, color = c\<rparr> # ss @ [\<lparr>at_pos = 1, color = d\<rparr>]"
proof -
  let ?e = "\<lparr>at_pos = 0, color = c\<rparr> # ss @ [\<lparr>at_pos = 1, color = d\<rparr>]"
  have "sorted (map at_pos ?e)"
    using srt ins by (auto simp: sorted_append less_imp_le)
  then have "sort_key at_pos ?e = ?e" by (rule sort_key_id_if_sorted)
  then show ?thesis
    by (simp add: padded_def pad_front_def pad_back_def)
qed

lemma py_round_of_int: "py_round (of_int n) = n"
  by (simp add: py_round_def)

lemma channel_id: "0 \<le> c \<Longrightarrow> c \<le> 255 \<Longrightarrow> channel c 1 = c"
  by (simp add: channel_def clamp_def py_int_def max_def min_def)

lemma lut_value_first:
  assumes "0 < at_pos a" "0 \<le> c0" "c0 \<le> 255" "0 \<le> c1" "c1 \<le> 255" "0 \<le> c2" "c2 \<le> 255"
    and "color a = (c0, c1, c2)"
  shows "lut_value (\<lparr>at_pos = 0, color = color a\<rparr> # a # rest) 1 0 = (c0, c1, c2)"
  using assms
  by (simp add: lut_value_def bracket_def clamp_def lerp_color_def lerp_def py_round_of_int channel_id)


text \<open>
  C5. When every stop lies strictly inside the unit interval, \<open>build_luts\<close> returns what
  it returns on the sorted list with a stop at 0 carrying the first colour put in front
  and a stop at 1 carrying the last colour put behind. With brightness 1 and a first
  colour of 8-bit channels, entry 0 of the three tables is that colour.
\<close>

theorem build_luts_boundary_padding:
  assumes "stops \<noteq> []" and "\<forall>s \<in> set stops. 0 < at_pos s \<and> at_pos s < 1"
  shows "build_luts stops brightness =
           build_luts (\<lparr>at_pos = 0, color = color (hd (sort_key at_pos stops))\<rparr>
                        # sort_key at_pos stops
                        @ [\<lparr>at_pos = 1, color = color (last (sort_key at_pos stops))\<rparr>]) brightness
         \<and> ((\<forall>c \<in> (case color (hd (sort_key at_pos stops)) of (c0, c1, c2) \<Rightarrow> {c0, c1, c2}).
                0 \<le> c \<and> c \<le> 255) \<longrightarrow>
             (\<exists>r g b. build_luts stops 1 = Inr (r, g, b)
                \<and> (r ! 0, g ! 0, b ! 0) = color (hd (sort_key at_pos stops))))"
proof -
  let ?ss = "sort_key at_pos stops"
  let ?e = "\<lparr>at_pos = 0, color = color (hd ?ss)\<rparr> # ?ss @ [\<lparr>at_pos = 1, color = color (last ?ss)\<rparr>]"
  have p1: "padded stops = ?e"
    by (rule padded_inside[OF assms])
  have "\<forall>s \<in> set ?ss. 0 < at_pos s \<and> at_pos s < 1"
    using assms(2) by simp
  then have p2: "padded ?e = ?e"
    by (intro padded_explicit) simp_all
  have ene: "?e \<noteq> []" by simp
  have eq: "build_luts stops brightness = build_luts ?e brightness"
    unfolding build_luts_nonempty[OF assms(1)] build_luts_nonempty[OF ene] p1 p2 ..
  have idx: "\<exists>r g b. build_luts stops 1 = Inr (r, g, b) \<and> (r ! 0, g ! 0, b ! 0) = color (hd ?ss)"
    if rng: "\<forall>c \<in> (case color (hd ?ss) of (c0, c1, c2) \<Rightarrow> {c0, c1, c2}). 0 \<le> c \<and> c \<le> 255"
  proof -
    obtain a rest where ss: "?ss = a # rest"
      using assms(1) by (cases ?ss) (simp_all add: sort_key_Nil_iff)
    obtain c0 c1 c2 where c: "color a = (c0, c1, c2)"
      by (cases "color a")
    have "a \<in> set stops"
      using ss by (metis list.set_intros(1) set_sort)
    then have pos: "0 < at_pos a"
      using assms(2) by blast
    have v: "lut_value (\<lparr>at_pos = 0, color = color a\<rparr> # a # rest
                @ [\<lparr>at_pos = 1, color = color (last (a # rest))\<rparr>]) 1 0 = (c0, c1, c2)"
      using lut_value_first[OF pos _ _ _ _ _ _ c, of "rest @ [\<lparr>at_pos = 1, color = color (last (a # rest))\<rparr>]"]
        rng ss c by simp
    show ?thesis
      unfolding build_luts_nonempty[OF assms(1)] p1
      using v ss c by (simp del: upt.simps last.simps)
  qed
  show ?thesis
    using eq idx by blast
qed

theorem build_luts_boundary_padding_witness:
  "build_luts [\<lparr>at_pos = 3 / 10, color = (10, 20, 30)\<rparr>, \<lparr>at_pos = 7 / 10, color = (200, 100, 50)\<rparr>] 1
     = build_luts [\<lparr>at_pos = 0, color = (10, 20, 30)\<rparr>, \<lparr>at_pos = 3 / 10, color = (10, 20, 30)\<rparr>,
                  \<lparr>at_pos = 7 / 10, color = (200, 100, 50)\<rparr>, \<lparr>at_pos = 1, color = (200, 100, 50)\<rparr>] 1
   \<and> (\<exists>r g b. build_luts [\<lparr>at_pos = 3 / 10, color = (10, 20, 30)\<rparr>,
                          \<lparr>at_pos = 7 / 10, color = (200, 100, 50)\<rparr>] 1 = Inr (r, g, b)
         \<and> r ! 0 = 10 \<and> g ! 0 = 20 \<and> b ! 0 = 30)"
proof -
  let ?stops = "[\<lparr>at_pos = 3 / 10, color = (10, 20, 30)\<rparr>, \<lparr>at_pos = 7 / 10, color = (200, 100, 50)\<rparr>]"
  have ne: "?stops \<noteq> []"
    by simp
  have ins: "\<forall>s \<in> set ?stops. 0 < at_pos s \<and> at_pos s < 1"
    by simp
  have srt: "sort_key at_pos ?stops = ?stops"
    by simp
  note t = build_luts_boundary_padding[OF ne ins, of 1, unfolded srt, simplified]
  show ?thesis
    using t by blast
qed

text \<open>
  C6. With an empty stop list \<open>build_luts\<close> raises \<open>ValueError\<close> and returns no table,
  and the empty list is the only input on which it raises at all.
\<close>

theorem build_luts_empty_raises:
  "build_luts [] brightness = Inl (ValueError ''Palette stops cannot be empty'')
   \<and> ((\<exists>e. build_luts stops brightness = Inl e) = (stops = []))"
proof -
  have "(\<exists>e. build_luts stops brightness = Inl e) = (stops = [])"
    using build_luts_nonempty[of stops brightness] build_luts_empty[of brightness]
    by (cases "stops = []") auto
  then show ?thesis
    by (simp add: build_luts_empty)
qed

theorem build_luts_empty_raises_witness:
  "build_luts [] 1 = Inl (ValueError ''Palette stops cannot be empty'')
   \<and> \<not> (\<exists>e. build_luts outer_stops 1 = Inl e)"
proof -
  have ne: "outer_stops \<noteq> []"
    by (simp add: outer_stops_def)
  show ?thesis
    using ne build_luts_empty_raises[of 1 outer_stops] by simp
qed



text \<open>
  C9. \<open>build_luts\<close> leaves its argument alone: every list object that exists before the
  call, the argument among them, holds the same stops after it. Sorting allocates a new
  list, and the boundary stops are inserted into that one. The value returned is the
  one of the function on the argument's contents.
\<close>

theorem build_luts_keeps_input:
  "stops < length h \<Longrightarrow>
     (\<forall>k < length h. snd (build_luts_store stops brightness h) ! k = h ! k)
     \<and> fst (build_luts_store stops brightness h) = build_luts (h ! stops) brightness"
  by (auto simp: build_luts_store_def build_luts_def py_sorted_def list_insert0_def
      list_append_def pad_front_def pad_back_def Let_def nth_append simp del: upt.simps)

theorem build_luts_keeps_input_witness:
  "snd (build_luts_store 0 1 [[\<lparr>at_pos = 7 / 10, color = (1, 2, 3)\<rparr>,
                                \<lparr>at_pos = 3 / 10, color = (4, 5, 6)\<rparr>]]) ! 0
     = [\<lparr>at_pos = 7 / 10, color = (1, 2, 3)\<rparr>, \<lparr>at_pos = 3 / 10, color = (4, 5, 6)\<rparr>]"
  using build_luts_keeps_input[of 0 "[[\<lparr>at_pos = 7 / 10, color = (1, 2, 3)\<rparr>,
                                \<lparr>at_pos = 3 / 10, color = (4, 5, 6)\<rparr>]]" 1]
  by simp

section \<open>The ember of the flame frame\<close>











section \<open>The transparent index of a quantised frame\<close>

lemma blend8_set: "blend8 255 p 0 = 0"
  by (simp add: blend8_def)

lemma div255_id:
  assumes "n < 256"
  shows "((n * 255 + 128) div 256 + (n * 255 + 128)) div 256 = (n::nat)"
proof (cases "n \<le> 128")
  case True
  have "n * 255 + 128 = n * 256 + (128 - n)" using True by simp
  then have d: "(n * 255 + 128) div 256 = n" using True by simp
  have "n + (n * 255 + 128) = n * 256 + 128" by simp
  then show ?thesis unfolding d by simp
next
  case False
  then obtain m where m: "n = Suc m" by (cases n) auto
  have "n * 255 + 128 = m * 256 + (383 - m)" using False assms m by simp
  moreover have "383 - m < 256" using False m by simp
  ultimately have d: "(n * 255 + 128) div 256 = m" by simp
  have "m + (n * 255 + 128) = n * 256 + 127" using m by simp
  then show ?thesis unfolding d by simp
qed


lemma blend8_keep: "blend8 0 p c = p"
proof -
  have "unat p < 256" using unsigned_less[of p] by simp
  then have "((unat p * 255 + 128) div 256 + (unat p * 255 + 128)) div 256 = unat p"
    by (rule div255_id)
  then show ?thesis
    by (simp add: blend8_def Let_def)
qed

lemma gif_index:
  assumes "length (fst (quantize img colors)) = length img" "i < length img"
  shows "indices (rgba_to_gif_frame quantize img thr colors) ! i =
           (if uint (snd (snd (snd (img ! i)))) \<le> thr then 0 else fst (quantize img colors) ! i)"
proof -
  obtain pal tbl where q: "quantize img colors = (pal, tbl)"
    by (cases "quantize img colors")
  obtain r g b a where px: "img ! i = (r, g, b, a)"
    by (cases "img ! i")
  have len: "length pal = length img" using assms(1) q by simp
  show ?thesis
    using assms(2) len
    by (simp add: rgba_to_gif_frame_def getchannel_A_def image_eval_def paste_def q px
        blend8_set blend8_keep)
qed

lemma gif_frame_transparent_pixels:
  assumes "length (fst (quantize img colors)) = length img" "i < length img"
    and "uint (snd (snd (snd (img ! i)))) \<le> thr"
  shows "indices (rgba_to_gif_frame quantize img thr colors) ! i = 0"
  using gif_index[of quantize img colors i thr] assms by simp

text \<open>
  C1. A frame of one opaque red pixel, threshold 8, budget 128, with a quantiser that
  gives the only colour of the frame palette entry 0: the pixel's alpha 255 is above
  the threshold, and yet the pixel carries index 0, the index declared transparent.
\<close>

theorem rgba_to_gif_frame_opaque_pixel_on_index_0:
  "indices (rgba_to_gif_frame (\<lambda>im n. (map (\<lambda>p. 0) im, [(255, 0, 0)]))
              [(255, 0, 0, 255)] 8 128) = [0]
   \<and> transparency (rgba_to_gif_frame (\<lambda>im n. (map (\<lambda>p. 0) im, [(255, 0, 0)]))
              [(255, 0, 0, 255)] 8 128) = Some 0
   \<and> \<not> uint (255 :: 8 word) \<le> (8 :: int)"
  by (simp add: rgba_to_gif_frame_def getchannel_A_def image_eval_def paste_def blend8_keep)

end
